theory Spec2Isabelle
  imports Main "HOL-Library.Word"
begin

section \<open>Shapes/Shape.h: the shape feature and its dispatch helper\<close>

text \<open>
  Objects live in a store and are named by their address, so that a method returning
  \<^verbatim>\<open>this\<close> or \<^verbatim>\<open>*this\<close> can be told apart from one returning a copy.
  The shape type \<^verbatim>\<open>T\<close> is the type variable \<open>'s\<close>, the matrix type
  \<^verbatim>\<open>DimensionTraits<T::Dimensions>::MatrixType\<close> is \<open>'m\<close>, and the member function
  \<^verbatim>\<open>T::transformed(matrix)\<close> of the shape type is a parameter
  \<open>transformed :: 's \<Rightarrow> 'm \<Rightarrow> 's\<close>. A private member \<^verbatim>\<open>_x\<close> is the field \<open>m_x\<close>,
  an identifier cannot start with an underscore.
\<close>

type_synonym ptr = nat

text \<open>\<^verbatim>\<open>Implementation::Shape<T>\<close>, the value holder with its one member \<^verbatim>\<open>shape\<close>.\<close>

record 's Implementation_Shape =
  shape :: 's

text \<open>
  \<^verbatim>\<open>Shape<T>\<close>: the two holders \<^verbatim>\<open>_shape\<close> and \<^verbatim>\<open>_transformedShape\<close> of line 117,
  with the node and the group the base class \<^verbatim>\<open>AbstractShape\<close> was constructed with.
\<close>

record 's Shape =
  object :: ptr
  group :: "ptr option"
  m_shape :: "'s Implementation_Shape"
  m_transformedShape :: "'s Implementation_Shape"

text \<open>
  Modelled from the spec: the node of the scene hierarchy (\<^verbatim>\<open>SceneGraph::AbstractObject\<close>,
  not among the sources). It owns the dirty flag, knows the absolute transformation the
  hierarchy computes for it, and the features registered on it.
\<close>

record 'm AbstractObject =
  dirty :: bool
  absoluteTransformation :: 'm
  features :: "ptr list"

text \<open>
  The store. \<open>transformCalls\<close> is a ghost counter, one per feature: the number of times
  \<^verbatim>\<open>ShapeHelper<T>::transform\<close> has run on it. No operation reads it.
\<close>

record ('s, 'm) scene =
  shapeHeap :: "ptr \<Rightarrow> 's Shape"
  objectHeap :: "ptr \<Rightarrow> 'm AbstractObject"
  groupHeap :: "ptr \<Rightarrow> ptr set"
  transformCalls :: "ptr \<Rightarrow> nat"

text \<open>
  \<^verbatim>\<open>Implementation::ShapeHelper<T>\<close> is chosen by the compiler from the shape type. Here the
  choice is an explicit argument: a record of the two static functions.
\<close>

record ('s, 'm) ShapeHelper =
  helper_set :: "'s Shape \<Rightarrow> 's \<Rightarrow> 's Shape"
  helper_transform :: "'s Shape \<Rightarrow> 'm \<Rightarrow> 's Shape"

text \<open>The primary template, lines 136 to 144.\<close>

definition ShapeHelper_set :: "'s Shape \<Rightarrow> 's \<Rightarrow> 's Shape" where
  "ShapeHelper_set f s = f\<lparr>m_shape := (m_shape f)\<lparr>shape := s\<rparr>\<rparr>"

definition ShapeHelper_transform :: "('s \<Rightarrow> 'm \<Rightarrow> 's) \<Rightarrow> 's Shape \<Rightarrow> 'm \<Rightarrow> 's Shape" where
  "ShapeHelper_transform transformed f absoluteTransformationMatrix =
     f\<lparr>m_transformedShape :=
         (m_transformedShape f)\<lparr>shape := transformed (shape (m_shape f)) absoluteTransformationMatrix\<rparr>\<rparr>"

definition ShapeHelper_generic :: "('s \<Rightarrow> 'm \<Rightarrow> 's) \<Rightarrow> ('s, 'm) ShapeHelper" where
  "ShapeHelper_generic transformed =
     \<lparr>helper_set = ShapeHelper_set, helper_transform = ShapeHelper_transform transformed\<rparr>"

text \<open>
  Modelled from the spec: \<^verbatim>\<open>SceneGraph::AbstractObject::setDirty()\<close>, the spec's
  \<^verbatim>\<open>markDirty()\<close>: the node reports itself dirty from now on.
\<close>

definition setDirty :: "ptr \<Rightarrow> ('s, 'm) scene \<Rightarrow> ('s, 'm) scene" where
  "setDirty n st = st\<lparr>objectHeap := (objectHeap st)(n := (objectHeap st n)\<lparr>dirty := True\<rparr>)\<rparr>"

text \<open>\<^verbatim>\<open>Shape<T>::clean\<close>, lines 131 to 133: it delegates to the helper's \<^verbatim>\<open>transform\<close>.\<close>

definition clean :: "('s, 'm) ShapeHelper \<Rightarrow> ptr \<Rightarrow> 'm \<Rightarrow> ('s, 'm) scene \<Rightarrow> ('s, 'm) scene" where
  "clean H this absoluteTransformationMatrix st =
     st\<lparr>shapeHeap := (shapeHeap st)
            (this := helper_transform H (shapeHeap st this) absoluteTransformationMatrix),
        transformCalls := (transformCalls st)(this := Suc (transformCalls st this))\<rparr>"

text \<open>
  Modelled from the spec: \<^verbatim>\<open>SceneGraph::AbstractObject::setClean()\<close>, the spec's
  \<^verbatim>\<open>ensureClean()\<close>. A clean node is left alone. A dirty node calls \<^verbatim>\<open>clean(matrix)\<close>
  on each feature registered on it, with its absolute transformation, and is clean
  afterwards.
\<close>

definition setClean :: "('s, 'm) ShapeHelper \<Rightarrow> ptr \<Rightarrow> ('s, 'm) scene \<Rightarrow> ('s, 'm) scene" where
  "setClean H n st =
     (if \<not> dirty (objectHeap st n) then st
      else
        let st1 = fold (\<lambda>p. clean H p (absoluteTransformation (objectHeap st n)))
                    (features (objectHeap st n)) st
        in st1\<lparr>objectHeap := (objectHeap st1)(n := (objectHeap st1 n)\<lparr>dirty := False\<rparr>)\<rparr>)"

text \<open>
  Modelled from the spec: the constructor of the base class
  \<^verbatim>\<open>AbstractShape<dimensions>(object, group)\<close>. It attaches the feature to the node and,
  when a group is given, registers the feature with that group.
\<close>

definition AbstractShape_ctor :: "ptr \<Rightarrow> ptr \<Rightarrow> ptr option \<Rightarrow> ('s, 'm) scene \<Rightarrow> ('s, 'm) scene" where
  "AbstractShape_ctor this obj grp st =
     st\<lparr>shapeHeap := (shapeHeap st)(this := (shapeHeap st this)\<lparr>object := obj, group := grp\<rparr>),
        objectHeap := (objectHeap st)
            (obj := (objectHeap st obj)\<lparr>features := features (objectHeap st obj) @ [this]\<rparr>),
        groupHeap := (case grp of None \<Rightarrow> groupHeap st
                      | Some g \<Rightarrow> (groupHeap st)(g := insert this (groupHeap st g)))\<rparr>"

text \<open>
  The three constructors of lines 78 to 88. The overloads taking \<^verbatim>\<open>const T&\<close> and
  \<^verbatim>\<open>T&&\<close> are \<open>Some shape\<close>, the one without a shape is \<open>None\<close>. Both holders are
  default-constructed members; \<open>dflt\<close> is the value of \<^verbatim>\<open>T()\<close>.
\<close>

definition Shape_ctor ::
  "('s, 'm) ShapeHelper \<Rightarrow> 's \<Rightarrow> ptr \<Rightarrow> ptr \<Rightarrow> 's option \<Rightarrow> ptr option \<Rightarrow> ('s, 'm) scene \<Rightarrow> ('s, 'm) scene" where
  "Shape_ctor H dflt this obj init grp st =
     (let st1 = AbstractShape_ctor this obj grp st;
          st2 = st1\<lparr>shapeHeap := (shapeHeap st1)
                  (this := (shapeHeap st1 this)\<lparr>m_shape := \<lparr>shape = dflt\<rparr>,
                                               m_transformedShape := \<lparr>shape = dflt\<rparr>\<rparr>)\<rparr>
      in case init of
           None \<Rightarrow> st2
         | Some s \<Rightarrow> st2\<lparr>shapeHeap := (shapeHeap st2)(this := helper_set H (shapeHeap st2 this) s)\<rparr>)"

text \<open>\<^verbatim>\<open>Shape<T>::shape() const\<close>, line 91. The store is returned with the value, as it is left.\<close>

definition Shape_shape :: "ptr \<Rightarrow> ('s, 'm) scene \<Rightarrow> 's \<times> ('s, 'm) scene" where
  "Shape_shape this st = (shape (m_shape (shapeHeap st this)), st)"

text \<open>\<^verbatim>\<open>Shape<T>::setShape\<close>, lines 120 to 124.\<close>

definition setShape :: "('s, 'm) ShapeHelper \<Rightarrow> ptr \<Rightarrow> 's \<Rightarrow> ('s, 'm) scene \<Rightarrow> ptr \<times> ('s, 'm) scene" where
  "setShape H this s st =
     (let st1 = st\<lparr>shapeHeap := (shapeHeap st)(this := helper_set H (shapeHeap st this) s)\<rparr>;
          st2 = setDirty (object (shapeHeap st1 this)) st1
      in (this, st2))"

text \<open>\<^verbatim>\<open>Shape<T>::transformedShape\<close>, lines 126 to 129.\<close>

definition transformedShape :: "('s, 'm) ShapeHelper \<Rightarrow> ptr \<Rightarrow> ('s, 'm) scene \<Rightarrow> 's \<times> ('s, 'm) scene" where
  "transformedShape H this st =
     (let st1 = setClean H (object (shapeHeap st this)) st
      in (shape (m_transformedShape (shapeHeap st1 this)), st1))"

text \<open>
  A client's calls on one feature, to speak about sequences of them. \<open>Clean\<close> is the call
  the node makes on the feature during revalidation.
\<close>

datatype ('s, 'm) Shape_call = SetShape 's | GetShape | TransformedShape | Clean 'm

fun perform :: "('s, 'm) ShapeHelper \<Rightarrow> ptr \<Rightarrow> ('s, 'm) Shape_call \<Rightarrow> ('s, 'm) scene \<Rightarrow> ('s, 'm) scene" where
  "perform H this (SetShape s) st = snd (setShape H this s st)"
| "perform H this GetShape st = snd (Shape_shape this st)"
| "perform H this TransformedShape st = snd (transformedShape H this st)"
| "perform H this (Clean M) st = clean H this M st"

text \<open>
  Calls on several features, each with the address of the feature it is made on, and the
  value the local shape of \<open>this\<close> was last set to by such a sequence, \<open>s0\<close> when by none.
\<close>

definition performAll ::
  "('s, 'm) ShapeHelper \<Rightarrow> (ptr \<times> ('s, 'm) Shape_call) list \<Rightarrow> ('s, 'm) scene \<Rightarrow> ('s, 'm) scene" where
  "performAll H cs st = fold (\<lambda>(p, c). perform H p c) cs st"

fun lastSet :: "ptr \<Rightarrow> 's \<Rightarrow> (ptr \<times> ('s, 'm) Shape_call) list \<Rightarrow> 's" where
  "lastSet this s0 [] = s0"
| "lastSet this s0 ((p, SetShape s) # cs) = lastSet this (if p = this then s else s0) cs"
| "lastSet this s0 ((p, GetShape) # cs) = lastSet this s0 cs"
| "lastSet this s0 ((p, TransformedShape) # cs) = lastSet this s0 cs"
| "lastSet this s0 ((p, Clean M) # cs) = lastSet this s0 cs"

text \<open>The node a feature is attached to, and whether the node holds it exactly once.\<close>

definition nodeOf :: "ptr \<Rightarrow> ('s, 'm) scene \<Rightarrow> 'm AbstractObject" where
  "nodeOf this st = objectHeap st (object (shapeHeap st this))"

definition attachedOnce :: "ptr \<Rightarrow> ('s, 'm) scene \<Rightarrow> bool" where
  "attachedOnce this st = (count_list (features (nodeOf this st)) this = 1)"

subsection \<open>The specialisation for compositions\<close>

text \<open>
  Modelled from the spec: the composite shape \<^verbatim>\<open>Composition<dimensions>\<close>, of which the
  sources have the name only: an ordered collection of sub-shapes with the aggregate state
  derived from them (the spec's example is a bounding envelope). \<open>derive\<close> computes the
  aggregate; \<open>Composition_of\<close> is the composite built from a list of sub-shapes.
\<close>

record ('s, 'a) Composition =
  subShapes :: "'s list"
  aggregate :: 'a

definition Composition_of :: "('s list \<Rightarrow> 'a) \<Rightarrow> 's list \<Rightarrow> ('s, 'a) Composition" where
  "Composition_of derive ss = \<lparr>subShapes = ss, aggregate = derive ss\<rparr>"

text \<open>
  Modelled from the spec: \<^verbatim>\<open>ShapeHelper<Composition<dimensions>>\<close>, lines 146 to 151, declared
  in the sources and defined elsewhere. \<^verbatim>\<open>set\<close> copies the whole composite into the local
  holder. \<^verbatim>\<open>transform\<close> transforms each sub-shape by the sub-shape's own \<open>transformed\<close>, in
  order, derives the aggregate again from the transformed sub-shapes, and writes the
  result into the world holder.
\<close>

definition Composition_transformed ::
  "('s \<Rightarrow> 'm \<Rightarrow> 's) \<Rightarrow> ('s list \<Rightarrow> 'a) \<Rightarrow> ('s, 'a) Composition \<Rightarrow> 'm \<Rightarrow> ('s, 'a) Composition" where
  "Composition_transformed transformed derive c M =
     (let ts = map (\<lambda>s. transformed s M) (subShapes c)
      in \<lparr>subShapes = ts, aggregate = derive ts\<rparr>)"

definition ShapeHelper_Composition ::
  "('s \<Rightarrow> 'm \<Rightarrow> 's) \<Rightarrow> ('s list \<Rightarrow> 'a) \<Rightarrow> (('s, 'a) Composition, 'm) ShapeHelper" where
  "ShapeHelper_Composition transformed derive =
     \<lparr>helper_set = (\<lambda>f composition. f\<lparr>m_shape := (m_shape f)\<lparr>shape := composition\<rparr>\<rparr>),
      helper_transform = (\<lambda>f M. f\<lparr>m_transformedShape :=
         (m_transformedShape f)\<lparr>shape := Composition_transformed transformed derive (shape (m_shape f)) M\<rparr>\<rparr>)\<rparr>"

section \<open>Magnum/Timeline.h\<close>

text \<open>
  \<^verbatim>\<open>Float\<close> is a 32-bit IEEE 754 number, kept as its bit pattern: \<^verbatim>\<open>0.0f\<close> is the word
  \<open>0\<close>. Nothing below computes with one. A \<^verbatim>\<open>time_point\<close> is the number of ticks since
  the clock's epoch.
\<close>

type_synonym Float = "32 word"

type_synonym time_point = int

record Timeline =
  m_startTime :: time_point
  m_previousFrameTime :: time_point
  m_minimalFrameTime :: Float
  m_previousFrameDuration :: Float
  running :: bool

text \<open>
  The constructor, line 93. The two time points are not in the initialiser list; they are
  default-constructed, which for a \<^verbatim>\<open>time_point\<close> is the epoch.
\<close>

definition Timeline_ctor :: "ptr \<Rightarrow> (ptr \<Rightarrow> Timeline) \<Rightarrow> (ptr \<Rightarrow> Timeline)" where
  "Timeline_ctor this h =
     h(this := \<lparr>m_startTime = 0, m_previousFrameTime = 0, m_minimalFrameTime = 0,
                m_previousFrameDuration = 0, running = False\<rparr>)"

text \<open>\<^verbatim>\<open>minimalFrameTime() const\<close>, line 96.\<close>

definition minimalFrameTime :: "ptr \<Rightarrow> (ptr \<Rightarrow> Timeline) \<Rightarrow> Float" where
  "minimalFrameTime this h = m_minimalFrameTime (h this)"

text \<open>\<^verbatim>\<open>setMinimalFrameTime\<close>, lines 105 to 108. It returns \<^verbatim>\<open>*this\<close>.\<close>

definition setMinimalFrameTime :: "ptr \<Rightarrow> Float \<Rightarrow> (ptr \<Rightarrow> Timeline) \<Rightarrow> ptr \<times> (ptr \<Rightarrow> Timeline)" where
  "setMinimalFrameTime this seconds h = (this, h(this := (h this)\<lparr>m_minimalFrameTime := seconds\<rparr>))"

text \<open>\<^verbatim>\<open>previousFrameDuration() const\<close>, line 148.\<close>

definition previousFrameDuration :: "ptr \<Rightarrow> (ptr \<Rightarrow> Timeline) \<Rightarrow> Float" where
  "previousFrameDuration this h = m_previousFrameDuration (h this)"

text \<open>
  Modelled from the spec: \<^verbatim>\<open>start()\<close>, declared at line 116 and defined elsewhere. Its
  comment: "Sets previous frame time and duration to 0". \<open>now\<close> is the clock's reading.
\<close>

definition start :: "ptr \<Rightarrow> time_point \<Rightarrow> (ptr \<Rightarrow> Timeline) \<Rightarrow> (ptr \<Rightarrow> Timeline)" where
  "start this now h =
     h(this := (h this)\<lparr>running := True, m_startTime := now, m_previousFrameTime := now,
                         m_previousFrameDuration := 0\<rparr>)"

text \<open>
  Modelled from the spec: \<^verbatim>\<open>stop()\<close>, declared at line 123 and defined elsewhere. The
  spec: "stopped state yields zero durations".
\<close>

definition stop :: "ptr \<Rightarrow> (ptr \<Rightarrow> Timeline) \<Rightarrow> (ptr \<Rightarrow> Timeline)" where
  "stop this h = h(this := (h this)\<lparr>running := False, m_previousFrameDuration := 0\<rparr>)"

text \<open>
  Modelled from the spec: \<^verbatim>\<open>nextFrame()\<close>, declared at line 133 and defined elsewhere. Its
  comment: "This function does nothing if the timeline is stopped". \<open>now\<close> is the clock's
  reading when the frame ends, after the pause that enforces the minimal frame time, and
  \<open>toSeconds\<close> turns a number of ticks into a \<^verbatim>\<open>Float\<close> of seconds.
\<close>

definition nextFrame :: "(int \<Rightarrow> Float) \<Rightarrow> ptr \<Rightarrow> time_point \<Rightarrow> (ptr \<Rightarrow> Timeline) \<Rightarrow> (ptr \<Rightarrow> Timeline)" where
  "nextFrame toSeconds this now h =
     (if \<not> running (h this) then h
      else h(this := (h this)\<lparr>m_previousFrameDuration := toSeconds (now - m_previousFrameTime (h this)),
                               m_previousFrameTime := now\<rparr>))"

text \<open>
  Modelled from the spec: \<^verbatim>\<open>previousFrameTime() const\<close>, declared at line 141 and defined
  elsewhere. Its comment: "Returns time elapsed since start() was called. If the timeline
  is stopped, the function returns 0.0f".
\<close>

definition previousFrameTime :: "(int \<Rightarrow> Float) \<Rightarrow> ptr \<Rightarrow> (ptr \<Rightarrow> Timeline) \<Rightarrow> Float" where
  "previousFrameTime toSeconds this h =
     (if running (h this) then toSeconds (m_previousFrameTime (h this) - m_startTime (h this)) else 0)"

text \<open>A client's calls on one timeline.\<close>

datatype Timeline_call = Start time_point | Stop | NextFrame time_point | SetMinimalFrameTime Float

fun invoke :: "(int \<Rightarrow> Float) \<Rightarrow> ptr \<Rightarrow> Timeline_call \<Rightarrow> (ptr \<Rightarrow> Timeline) \<Rightarrow> (ptr \<Rightarrow> Timeline)" where
  "invoke toSeconds this (Start now) h = start this now h"
| "invoke toSeconds this Stop h = stop this h"
| "invoke toSeconds this (NextFrame now) h = nextFrame toSeconds this now h"
| "invoke toSeconds this (SetMinimalFrameTime seconds) h = snd (setMinimalFrameTime this seconds h)"

section \<open>A concrete scene\<close>

text \<open>
  A sphere with integer coordinates, a centre and a radius, moved by a translation: the
  instance of the shape type and of \<open>transformed\<close> at which the theorems are evaluated.
\<close>

type_synonym sphere = "(int \<times> int \<times> int) \<times> int"

type_synonym translation = "int \<times> int \<times> int"

fun translated :: "sphere \<Rightarrow> translation \<Rightarrow> sphere" where
  "translated ((x, y, z), r) (a, b, c) = ((x + a, y + b, z + c), r)"

definition blankScene :: "(sphere, translation) scene" where
  "blankScene =
     \<lparr>shapeHeap = (\<lambda>p. \<lparr>object = 0, group = None, m_shape = \<lparr>shape = ((0, 0, 0), 0)\<rparr>,
                         m_transformedShape = \<lparr>shape = ((0, 0, 0), 0)\<rparr>\<rparr>),
      objectHeap = (\<lambda>n. \<lparr>dirty = False, absoluteTransformation = (5, 0, 0), features = []\<rparr>),
      groupHeap = (\<lambda>g. {}),
      transformCalls = (\<lambda>p. 0)\<rparr>"

text \<open>The feature at address 3 on node 7, constructed with the unit sphere at the origin.\<close>

definition sphereScene :: "(sphere, translation) scene" where
  "sphereScene =
     Shape_ctor (ShapeHelper_generic translated) ((0, 0, 0), 0) 3 7 (Some ((0, 0, 0), 1)) None blankScene"

definition blankTimelines :: "ptr \<Rightarrow> Timeline" where
  "blankTimelines = (\<lambda>p. \<lparr>m_startTime = 3, m_previousFrameTime = 4, m_minimalFrameTime = 5,
                            m_previousFrameDuration = 6, running = True\<rparr>)"

section \<open>Facts about the helper and the store\<close>

text \<open>
  The specialisation for compositions is the primary template at the composite's own
  \<open>transformed\<close>; what is proved of \<open>ShapeHelper_generic\<close> for every \<open>transformed\<close> holds of
  it too.
\<close>

lemma ShapeHelper_Composition_generic:
  "ShapeHelper_Composition tr derive = ShapeHelper_generic (Composition_transformed tr derive)"
  by (simp add: ShapeHelper_Composition_def ShapeHelper_generic_def ShapeHelper_set_def
      ShapeHelper_transform_def fun_eq_iff)


lemma ShapeHelper_generic_sel [simp]:
  "helper_set (ShapeHelper_generic tr) = ShapeHelper_set"
  "helper_transform (ShapeHelper_generic tr) = ShapeHelper_transform tr"
  by (simp_all add: ShapeHelper_generic_def)

lemma ShapeHelper_set_fields [simp]:
  "m_shape (ShapeHelper_set f s) = \<lparr>shape = s\<rparr>"
  "m_transformedShape (ShapeHelper_set f s) = m_transformedShape f"
  "object (ShapeHelper_set f s) = object f"
  "group (ShapeHelper_set f s) = group f"
  by (simp_all add: ShapeHelper_set_def)

lemma ShapeHelper_transform_fields [simp]:
  "m_shape (ShapeHelper_transform tr f M) = m_shape f"
  "m_transformedShape (ShapeHelper_transform tr f M) = \<lparr>shape = tr (shape (m_shape f)) M\<rparr>"
  "object (ShapeHelper_transform tr f M) = object f"
  "group (ShapeHelper_transform tr f M) = group f"
  by (simp_all add: ShapeHelper_transform_def)

lemma ShapeHelper_transform_twice:
  "ShapeHelper_transform tr (ShapeHelper_transform tr f M) M = ShapeHelper_transform tr f M"
  by (simp add: ShapeHelper_transform_def)

lemma clean_fields [simp]:
  "shapeHeap (clean H p M st) = (shapeHeap st)(p := helper_transform H (shapeHeap st p) M)"
  "objectHeap (clean H p M st) = objectHeap st"
  "groupHeap (clean H p M st) = groupHeap st"
  "transformCalls (clean H p M st) = (transformCalls st)(p := Suc (transformCalls st p))"
  by (simp_all add: clean_def)

lemma fold_clean_objectHeap [simp]:
  "objectHeap (fold (\<lambda>p. clean H p M) ps st) = objectHeap st"
  by (induction ps arbitrary: st) simp_all

lemma fold_clean_groupHeap [simp]:
  "groupHeap (fold (\<lambda>p. clean H p M) ps st) = groupHeap st"
  by (induction ps arbitrary: st) simp_all

lemma fold_clean_transformCalls:
  "transformCalls (fold (\<lambda>p. clean H p M) ps st) q = transformCalls st q + count_list ps q"
  by (induction ps arbitrary: st) simp_all

lemma fold_clean_shapeHeap:
  "shapeHeap (fold (\<lambda>p. clean (ShapeHelper_generic tr) p M) ps st) q =
     (if q \<in> set ps then ShapeHelper_transform tr (shapeHeap st q) M else shapeHeap st q)"
  by (induction ps arbitrary: st) (simp_all add: ShapeHelper_transform_twice)

lemma setDirty_fields [simp]:
  "shapeHeap (setDirty n st) = shapeHeap st"
  "objectHeap (setDirty n st) = (objectHeap st)(n := (objectHeap st n)\<lparr>dirty := True\<rparr>)"
  "groupHeap (setDirty n st) = groupHeap st"
  "transformCalls (setDirty n st) = transformCalls st"
  by (simp_all add: setDirty_def)

lemma setClean_shapeHeap:
  "shapeHeap (setClean (ShapeHelper_generic tr) n st) q =
     (if dirty (objectHeap st n) \<and> q \<in> set (features (objectHeap st n))
      then ShapeHelper_transform tr (shapeHeap st q) (absoluteTransformation (objectHeap st n))
      else shapeHeap st q)"
  by (simp add: setClean_def Let_def fold_clean_shapeHeap)

lemma setClean_transformCalls:
  "transformCalls (setClean H n st) q =
     transformCalls st q + (if dirty (objectHeap st n) then count_list (features (objectHeap st n)) q else 0)"
  by (simp add: setClean_def Let_def fold_clean_transformCalls)

lemma setClean_objectHeap:
  "objectHeap (setClean H n st) = (objectHeap st)(n := (objectHeap st n)\<lparr>dirty := False\<rparr>)"
  by (auto simp add: setClean_def Let_def fun_eq_iff)

lemma setClean_groupHeap [simp]:
  "groupHeap (setClean H n st) = groupHeap st"
  by (simp add: setClean_def Let_def)

lemma setShape_fields [simp]:
  "fst (setShape H this s st) = this"
  "shapeHeap (snd (setShape H this s st)) = (shapeHeap st)(this := helper_set H (shapeHeap st this) s)"
  "groupHeap (snd (setShape H this s st)) = groupHeap st"
  "transformCalls (snd (setShape H this s st)) = transformCalls st"
  by (simp_all add: setShape_def Let_def)

lemma setShape_objectHeap:
  "objectHeap (snd (setShape (ShapeHelper_generic tr) this s st)) =
     (objectHeap st)(object (shapeHeap st this) := (objectHeap st (object (shapeHeap st this)))\<lparr>dirty := True\<rparr>)"
  by (simp add: setShape_def Let_def)

lemma nodeOf_setShape:
  "nodeOf q (snd (setShape (ShapeHelper_generic tr) this s st)) =
     (if object (shapeHeap st q) = object (shapeHeap st this)
      then (nodeOf q st)\<lparr>dirty := True\<rparr> else nodeOf q st)"
  by (simp add: nodeOf_def setShape_objectHeap)

lemma fold_SetShape_transformCalls:
  "transformCalls (fold (perform (ShapeHelper_generic tr) this) (map SetShape ss) st) = transformCalls st"
  by (induction ss arbitrary: st) simp_all

lemma fold_SetShape_object:
  "object (shapeHeap (fold (perform (ShapeHelper_generic tr) this) (map SetShape ss) st) q)
     = object (shapeHeap st q)"
  by (induction ss arbitrary: st) simp_all

lemma fold_SetShape_node:
  "objectHeap (fold (perform (ShapeHelper_generic tr) this) (map SetShape ss) st) n =
     (if ss \<noteq> [] \<and> n = object (shapeHeap st this)
      then (objectHeap st n)\<lparr>dirty := True\<rparr> else objectHeap st n)"
proof (induction ss arbitrary: st)
  case Nil
  show ?case by simp
next
  case (Cons s ss)
  show ?case
    by (cases "ss = []") (simp_all add: Cons.IH setShape_objectHeap)
qed

lemma transformedShape_clean_node:
  assumes "\<not> dirty (nodeOf this st)"
  shows "snd (transformedShape H this st) = st"
  using assms by (simp add: transformedShape_def setClean_def nodeOf_def)

lemma fold_TransformedShape_clean_node:
  assumes "\<not> dirty (nodeOf this st)"
  shows "fold (perform H this) (replicate k TransformedShape) st = st"
  using assms by (induction k) (simp_all add: transformedShape_clean_node)

lemma transformedShape_dirty_node:
  assumes "dirty (nodeOf this st)"
  shows "transformCalls (snd (transformedShape (ShapeHelper_generic tr) this st)) this
           = transformCalls st this + count_list (features (nodeOf this st)) this"
    and "\<not> dirty (nodeOf this (snd (transformedShape (ShapeHelper_generic tr) this st)))"
  using assms
  by (simp_all add: transformedShape_def Let_def setClean_transformCalls setClean_objectHeap
      setClean_shapeHeap nodeOf_def)

lemma transformedShape_m_shape:
  "m_shape (shapeHeap (snd (transformedShape (ShapeHelper_generic tr) p st)) q) = m_shape (shapeHeap st q)"
  by (simp add: transformedShape_def Let_def setClean_shapeHeap)

lemma clean_m_shape:
  "m_shape (shapeHeap (clean (ShapeHelper_generic tr) p M st) q) = m_shape (shapeHeap st q)"
  by simp

lemma perform_local:
  "shape (m_shape (shapeHeap (perform (ShapeHelper_generic tr) p c st) this))
     = lastSet this (shape (m_shape (shapeHeap st this))) [(p, c)]"
  by (cases c) (simp_all add: transformedShape_m_shape Shape_shape_def)

lemma lastSet_Cons: "lastSet this s0 ((p, c) # cs) = lastSet this (lastSet this s0 [(p, c)]) cs"
  by (cases c) simp_all

lemma performAll_local:
  "shape (m_shape (shapeHeap (performAll (ShapeHelper_generic tr) cs st) this))
     = lastSet this (shape (m_shape (shapeHeap st this))) cs"
proof (induction cs arbitrary: st)
  case Nil
  show ?case by (simp add: performAll_def)
next
  case (Cons pc cs)
  obtain p c where pc: "pc = (p, c)" by (cases pc)
  have step: "performAll (ShapeHelper_generic tr) (pc # cs) st
      = performAll (ShapeHelper_generic tr) cs (perform (ShapeHelper_generic tr) p c st)"
    by (simp add: performAll_def pc)
  have "shape (m_shape (shapeHeap (performAll (ShapeHelper_generic tr) (pc # cs) st) this))
          = lastSet this (shape (m_shape (shapeHeap (perform (ShapeHelper_generic tr) p c st) this))) cs"
    unfolding step by (rule Cons.IH)
  also have "\<dots> = lastSet this (lastSet this (shape (m_shape (shapeHeap st this))) [(p, c)]) cs"
    by (simp only: perform_local)
  also have "\<dots> = lastSet this (shape (m_shape (shapeHeap st this))) (pc # cs)"
    unfolding pc by (rule lastSet_Cons [symmetric])
  finally show ?case .
qed

lemma Shape_overwrite:
  "(f :: 's Shape)\<lparr>object := a, group := b, m_shape := c, m_transformedShape := d\<rparr>
     = \<lparr>object = a, group = b, m_shape = c, m_transformedShape = d\<rparr>"
  by (cases f) simp

lemma Shape_ctor_fields:
  "shapeHeap (Shape_ctor H dflt this obj init grp st) this =
     (case init of
        None \<Rightarrow> \<lparr>object = obj, group = grp, m_shape = \<lparr>shape = dflt\<rparr>, m_transformedShape = \<lparr>shape = dflt\<rparr>\<rparr>
      | Some s \<Rightarrow> helper_set H
          \<lparr>object = obj, group = grp, m_shape = \<lparr>shape = dflt\<rparr>, m_transformedShape = \<lparr>shape = dflt\<rparr>\<rparr> s)"
  "objectHeap (Shape_ctor H dflt this obj init grp st) =
     (objectHeap st)(obj := (objectHeap st obj)\<lparr>features := features (objectHeap st obj) @ [this]\<rparr>)"
  "transformCalls (Shape_ctor H dflt this obj init grp st) = transformCalls st"
  by (simp_all add: Shape_ctor_def AbstractShape_ctor_def Let_def Shape_overwrite split: option.split)

lemma fold_SetShape_world:
  "m_transformedShape (shapeHeap (fold (perform (ShapeHelper_generic tr) this) (map SetShape ss) st) this)
     = m_transformedShape (shapeHeap st this)"
  by (induction ss arbitrary: st) simp_all

lemma invoke_stopped_zero:
  assumes "running (h this) \<or> m_previousFrameDuration (h this) = 0"
  shows "running (invoke toSeconds this c h this) \<or> m_previousFrameDuration (invoke toSeconds this c h this) = 0"
  using assms
  by (cases c) (auto simp add: start_def stop_def nextFrame_def setMinimalFrameTime_def)

lemma fold_invoke_stopped_zero:
  assumes "running (h this) \<or> m_previousFrameDuration (h this) = 0"
  shows "running (fold (invoke toSeconds this) cs h this)
         \<or> m_previousFrameDuration (fold (invoke toSeconds this) cs h this) = 0"
  using assms
proof (induction cs arbitrary: h)
  case Nil
  then show ?case by simp
next
  case (Cons c cs)
  from Cons.prems have "running (invoke toSeconds this c h this)
      \<or> m_previousFrameDuration (invoke toSeconds this c h this) = 0"
    by (rule invoke_stopped_zero)
  then show ?case using Cons.IH by simp
qed

text \<open>A constructor called at an address the node does not hold yet registers it once.\<close>

lemma Shape_ctor_attachedOnce:
  assumes "this \<notin> set (features (objectHeap st obj))"
  shows "attachedOnce this (Shape_ctor (ShapeHelper_generic tr) dflt this obj init grp st)"
  using assms
  by (simp add: attachedOnce_def nodeOf_def Shape_ctor_fields split: option.split)

section \<open>The claims\<close>

text \<open>
  Claim C1. With the primary template as helper, on a feature registered on its node:
  \<^verbatim>\<open>setShape(s)\<close> followed by \<^verbatim>\<open>transformedShape()\<close> returns \<open>transformed s M\<close>, where \<open>M\<close>
  is the absolute transformation of the node. The store is arbitrary, and the second
  conjunct puts an arbitrary holder \<open>w\<close> into the cache first: the result is the same.
\<close>

theorem C1_dirty_correctness:
  assumes "this \<in> set (features (nodeOf this st))"
  shows "fst (transformedShape (ShapeHelper_generic transformed) this
               (snd (setShape (ShapeHelper_generic transformed) this s st)))
           = transformed s (absoluteTransformation (nodeOf this st))
       \<and> fst (transformedShape (ShapeHelper_generic transformed) this
               (snd (setShape (ShapeHelper_generic transformed) this s
                  (st\<lparr>shapeHeap := (shapeHeap st)
                       (this := (shapeHeap st this)\<lparr>m_transformedShape := w\<rparr>)\<rparr>))))
           = transformed s (absoluteTransformation (nodeOf this st))"
  using assms
  by (simp add: transformedShape_def Let_def setClean_shapeHeap setShape_objectHeap nodeOf_def)

text \<open>
  The unit sphere moved to \<open>(1, 1, 1)\<close> with radius 2, read under the translation by
  \<open>(5, 0, 0)\<close>.
\<close>

theorem C1_dirty_correctness_witness:
  "3 \<in> set (features (nodeOf 3 sphereScene))
   \<and> fst (transformedShape (ShapeHelper_generic translated) 3
          (snd (setShape (ShapeHelper_generic translated) 3 ((1, 1, 1), 2) sphereScene)))
       = ((6, 1, 1), 2)"
proof -
  have a: "3 \<in> set (features (nodeOf 3 sphereScene))"
    by (simp add: nodeOf_def sphereScene_def blankScene_def Shape_ctor_fields)
  have m: "absoluteTransformation (nodeOf 3 sphereScene) = (5, 0, 0)"
    by (simp add: nodeOf_def sphereScene_def blankScene_def Shape_ctor_fields)
  show ?thesis
    using a C1_dirty_correctness [OF a, of translated "((1, 1, 1), 2)"] by (simp add: m)
qed

text \<open>
  Claim C2, as it is written, counts exactly one run of the transform computation for
  \<^verbatim>\<open>setShape\<close> calls followed by zero or more reads. With zero reads there is none:
  \<^verbatim>\<open>setShape\<close> marks the node dirty and computes nothing.
\<close>

theorem C2_no_read_counterexample:
  "attachedOnce 3 sphereScene
   \<and> transformCalls
        (fold (perform (ShapeHelper_generic translated) 3)
           (map SetShape [((1, 1, 1), 2)] @ replicate 0 TransformedShape) sphereScene) 3
      \<noteq> transformCalls sphereScene 3 + 1
   \<and> transformCalls
        (fold (perform (ShapeHelper_generic translated) 3)
           (map SetShape [((1, 1, 1), 2)] @ replicate 0 TransformedShape) sphereScene) 3
      = transformCalls sphereScene 3"
  by (simp add: attachedOnce_def nodeOf_def sphereScene_def blankScene_def Shape_ctor_fields)

text \<open>
  Claim C2, amended. On a feature its node holds once, after one or more \<^verbatim>\<open>setShape\<close>
  calls followed by \<open>k\<close> calls of \<^verbatim>\<open>transformedShape()\<close>, the transform computation has run
  on the feature exactly once more when \<open>k\<close> is at least one, and not at all when \<open>k\<close> is
  zero.
\<close>

theorem C2_lazy_recompute:
  assumes "attachedOnce this st"
  shows "transformCalls
           (fold (perform (ShapeHelper_generic transformed) this)
              (map SetShape (s # ss) @ replicate k TransformedShape) st) this
         = transformCalls st this + (if k = 0 then 0 else 1)"
proof -
  let ?H = "ShapeHelper_generic transformed"
  let ?st1 = "fold (perform ?H this) (map SetShape (s # ss)) st"
  have calls: "transformCalls ?st1 = transformCalls st"
    by (rule fold_SetShape_transformCalls)
  have node: "nodeOf this ?st1 = (nodeOf this st)\<lparr>dirty := True\<rparr>"
    unfolding nodeOf_def fold_SetShape_object fold_SetShape_node by simp
  show ?thesis
  proof (cases k)
    case 0
    then show ?thesis using calls by simp
  next
    case (Suc j)
    let ?st2 = "snd (transformedShape ?H this ?st1)"
    have d: "dirty (nodeOf this ?st1)" using node by simp
    have once: "count_list (features (nodeOf this ?st1)) this = 1"
      using assms node by (simp add: attachedOnce_def)
    have "transformCalls ?st2 this = transformCalls st this + 1"
      using transformedShape_dirty_node(1) [OF d, of transformed] once calls by simp
    moreover have "fold (perform ?H this) (replicate j TransformedShape) ?st2 = ?st2"
      using transformedShape_dirty_node(2) [OF d, of transformed]
      by (rule fold_TransformedShape_clean_node)
    ultimately show ?thesis using Suc by simp
  qed
qed

text \<open>Two \<^verbatim>\<open>setShape\<close> calls and four reads on the sphere: one run.\<close>

theorem C2_lazy_recompute_witness:
  "attachedOnce 3 sphereScene
   \<and> transformCalls
        (fold (perform (ShapeHelper_generic translated) 3)
           (map SetShape [((1, 1, 1), 2), ((0, 0, 0), 3)] @ replicate 4 TransformedShape) sphereScene) 3
      = 1"
proof -
  have a: "attachedOnce 3 sphereScene"
    by (simp add: attachedOnce_def nodeOf_def sphereScene_def blankScene_def Shape_ctor_fields)
  have z: "transformCalls sphereScene 3 = 0"
    by (simp add: sphereScene_def blankScene_def Shape_ctor_fields)
  show ?thesis
    using a C2_lazy_recompute [OF a, of translated "((1, 1, 1), 2)" "[((0, 0, 0), 3)]" 4]
    by (simp add: z)
qed

text \<open>
  Claim C3. A second \<^verbatim>\<open>clean(M)\<close> with the same matrix leaves every feature of the store as
  the first call left it, and the cache after a call is the holder of
  \<open>transformed local M\<close> alone: nothing of the cache's previous value is left.
\<close>

theorem C3_clean_idempotent:
  "shapeHeap (clean (ShapeHelper_generic transformed) this M
       (clean (ShapeHelper_generic transformed) this M st))
     = shapeHeap (clean (ShapeHelper_generic transformed) this M st)
   \<and> m_transformedShape (shapeHeap (clean (ShapeHelper_generic transformed) this M st) this)
     = \<lparr>shape = transformed (shape (m_shape (shapeHeap st this))) M\<rparr>"
  by (simp add: ShapeHelper_transform_twice)

text \<open>
  Claim C4. \<^verbatim>\<open>setShape(s)\<close> returns \<^verbatim>\<open>this\<close>; the feature is what the helper's \<^verbatim>\<open>set\<close> makes
  of it, its local shape is \<open>s\<close>; its node, the same node as before, is dirty; no transform
  computation has run on any feature and the cache of the feature is as it was.
\<close>

theorem C4_setShape:
  "fst (setShape (ShapeHelper_generic transformed) this s st) = this
   \<and> shapeHeap (snd (setShape (ShapeHelper_generic transformed) this s st)) this
       = helper_set (ShapeHelper_generic transformed) (shapeHeap st this) s
   \<and> shape (m_shape (shapeHeap (snd (setShape (ShapeHelper_generic transformed) this s st)) this)) = s
   \<and> dirty (nodeOf this (snd (setShape (ShapeHelper_generic transformed) this s st)))
   \<and> object (shapeHeap (snd (setShape (ShapeHelper_generic transformed) this s st)) this)
       = object (shapeHeap st this)
   \<and> transformCalls (snd (setShape (ShapeHelper_generic transformed) this s st)) = transformCalls st
   \<and> m_transformedShape (shapeHeap (snd (setShape (ShapeHelper_generic transformed) this s st)) this)
       = m_transformedShape (shapeHeap st this)"
  by (simp add: nodeOf_setShape)

text \<open>
  Claim C5. \<^verbatim>\<open>shape()\<close> returns the value in the local holder and leaves the store as it
  is. Neither \<^verbatim>\<open>transformedShape()\<close> nor \<^verbatim>\<open>clean(M)\<close>, called on any feature \<open>p\<close>,
  changes the local holder of any feature \<open>q\<close>. After any sequence of calls, on this
  feature and on others, the local shape of a feature is the value of the last
  \<^verbatim>\<open>setShape\<close> made on it; when there is none it is the local shape the sequence started
  from, which after construction is the shape given to the constructor, or \<^verbatim>\<open>T()\<close> when
  none was given.
\<close>

theorem C5_local_shape_frame:
  "Shape_shape this st = (shape (m_shape (shapeHeap st this)), st)
   \<and> m_shape (shapeHeap (snd (transformedShape (ShapeHelper_generic transformed) p st)) q)
       = m_shape (shapeHeap st q)
   \<and> m_shape (shapeHeap (clean (ShapeHelper_generic transformed) p M st) q) = m_shape (shapeHeap st q)
   \<and> fst (Shape_shape this (performAll (ShapeHelper_generic transformed) cs st))
       = lastSet this (shape (m_shape (shapeHeap st this))) cs
   \<and> fst (Shape_shape this (performAll (ShapeHelper_generic transformed) cs
           (Shape_ctor (ShapeHelper_generic transformed) dflt this obj init grp st0)))
       = lastSet this (case init of None \<Rightarrow> dflt | Some s0 \<Rightarrow> s0) cs"
proof -
  have "shape (m_shape (shapeHeap (Shape_ctor (ShapeHelper_generic transformed) dflt this obj init grp st0) this))
          = (case init of None \<Rightarrow> dflt | Some s0 \<Rightarrow> s0)"
    by (simp add: Shape_ctor_fields split: option.split)
  then show ?thesis
    by (simp add: Shape_shape_def transformedShape_m_shape performAll_local)
qed

text \<open>
  Claim C6. Construction runs no transform computation on any feature. The new feature
  is the freshly initialised one, with the helper's \<^verbatim>\<open>set\<close> applied when a shape is given,
  so that its local shape is that shape. Its cache holds \<^verbatim>\<open>T()\<close>, and still does after
  any number of \<^verbatim>\<open>setShape\<close> calls, none of which revalidates.
\<close>

theorem C6_construction:
  "transformCalls (Shape_ctor (ShapeHelper_generic transformed) dflt this obj init grp st) = transformCalls st
   \<and> shapeHeap (Shape_ctor (ShapeHelper_generic transformed) dflt this obj init grp st) this
       = (case init of
            None \<Rightarrow> \<lparr>object = obj, group = grp, m_shape = \<lparr>shape = dflt\<rparr>,
                      m_transformedShape = \<lparr>shape = dflt\<rparr>\<rparr>
          | Some s \<Rightarrow> helper_set (ShapeHelper_generic transformed)
                      \<lparr>object = obj, group = grp, m_shape = \<lparr>shape = dflt\<rparr>,
                       m_transformedShape = \<lparr>shape = dflt\<rparr>\<rparr> s)
   \<and> shape (m_shape (shapeHeap (Shape_ctor (ShapeHelper_generic transformed) dflt this obj init grp st) this))
       = (case init of None \<Rightarrow> dflt | Some s \<Rightarrow> s)
   \<and> m_transformedShape (shapeHeap (Shape_ctor (ShapeHelper_generic transformed) dflt this obj init grp st) this)
       = \<lparr>shape = dflt\<rparr>
   \<and> m_transformedShape (shapeHeap (fold (perform (ShapeHelper_generic transformed) this) (map SetShape ss)
         (Shape_ctor (ShapeHelper_generic transformed) dflt this obj init grp st)) this)
       = \<lparr>shape = dflt\<rparr>"
  by (simp add: Shape_ctor_fields fold_SetShape_world split: option.split)

text \<open>
  Claim C7. Transforming the composite built from \<open>[s1, s2]\<close> by \<open>M\<close> gives the composite
  built from \<open>[transformed s1 M, transformed s2 M]\<close>, and for any list of sub-shapes the
  composite built from the list of the transformed sub-shapes, in the same order. The
  third conjunct is the same through the feature: the cache after \<^verbatim>\<open>setShape\<close> of the
  composite and \<^verbatim>\<open>clean(M)\<close>.
\<close>

theorem C7_composite_transform:
  "Composition_transformed transformed derive (Composition_of derive [s1, s2]) M
     = Composition_of derive [transformed s1 M, transformed s2 M]
   \<and> Composition_transformed transformed derive (Composition_of derive ss) M
     = Composition_of derive (map (\<lambda>s. transformed s M) ss)
   \<and> shape (m_transformedShape (shapeHeap
        (clean (ShapeHelper_Composition transformed derive) this M
           (snd (setShape (ShapeHelper_Composition transformed derive) this
              (Composition_of derive [s1, s2]) st))) this))
     = Composition_of derive [transformed s1 M, transformed s2 M]"
  by (simp add: Composition_transformed_def Composition_of_def ShapeHelper_Composition_generic Let_def)

text \<open>
  Claim C8. After construction and any sequence of calls, a timeline that is not running
  returns \<^verbatim>\<open>0.0f\<close> from both \<^verbatim>\<open>previousFrameDuration()\<close> and \<^verbatim>\<open>previousFrameTime()\<close>. The
  empty sequence is the timeline never started.
\<close>

theorem C8_stopped_timeline:
  assumes "\<not> running (fold (invoke toSeconds this) cs (Timeline_ctor this h) this)"
  shows "previousFrameDuration this (fold (invoke toSeconds this) cs (Timeline_ctor this h)) = 0
       \<and> previousFrameTime toSeconds this (fold (invoke toSeconds this) cs (Timeline_ctor this h)) = 0"
proof -
  have "running (Timeline_ctor this h this) \<or> m_previousFrameDuration (Timeline_ctor this h this) = 0"
    by (simp add: Timeline_ctor_def)
  then have "running (fold (invoke toSeconds this) cs (Timeline_ctor this h) this)
      \<or> m_previousFrameDuration (fold (invoke toSeconds this) cs (Timeline_ctor this h) this) = 0"
    by (rule fold_invoke_stopped_zero)
  with assms show ?thesis
    by (simp add: previousFrameDuration_def previousFrameTime_def)
qed

text \<open>
  A timeline never started, and one started, advanced, stopped and advanced again. The
  conversion of ticks to seconds is a stand-in.
\<close>

theorem C8_stopped_timeline_witness:
  "\<not> running (fold (invoke (\<lambda>d. word_of_int d) 2) [] (Timeline_ctor 2 blankTimelines) 2)
   \<and> previousFrameDuration 2 (fold (invoke (\<lambda>d. word_of_int d) 2) [] (Timeline_ctor 2 blankTimelines)) = 0
   \<and> previousFrameTime (\<lambda>d. word_of_int d) 2 (fold (invoke (\<lambda>d. word_of_int d) 2) [] (Timeline_ctor 2 blankTimelines)) = 0
   \<and> \<not> running (fold (invoke (\<lambda>d. word_of_int d) 2) [Start 10, NextFrame 25, SetMinimalFrameTime 9, Stop, NextFrame 40]
          (Timeline_ctor 2 blankTimelines) 2)
   \<and> previousFrameDuration 2 (fold (invoke (\<lambda>d. word_of_int d) 2) [Start 10, NextFrame 25, SetMinimalFrameTime 9, Stop, NextFrame 40]
          (Timeline_ctor 2 blankTimelines)) = 0
   \<and> previousFrameTime (\<lambda>d. word_of_int d) 2 (fold (invoke (\<lambda>d. word_of_int d) 2) [Start 10, NextFrame 25, SetMinimalFrameTime 9, Stop, NextFrame 40]
          (Timeline_ctor 2 blankTimelines)) = 0"
proof -
  have a: "\<not> running (fold (invoke (\<lambda>d. word_of_int d) 2) [] (Timeline_ctor 2 blankTimelines) 2)"
    by (simp add: Timeline_ctor_def)
  have b: "\<not> running (fold (invoke (\<lambda>d. word_of_int d) 2) [Start 10, NextFrame 25, SetMinimalFrameTime 9, Stop, NextFrame 40]
          (Timeline_ctor 2 blankTimelines) 2)"
    by (simp add: Timeline_ctor_def start_def stop_def nextFrame_def setMinimalFrameTime_def)
  show ?thesis
    using a b C8_stopped_timeline [OF a] C8_stopped_timeline [OF b] by simp
qed

text \<open>
  Claim C9. Construction leaves the dirty flag of every node as it was, and
  \<^verbatim>\<open>setShape\<close> leaves the feature's node dirty. Of the other members \<^verbatim>\<open>clean\<close> and
  \<^verbatim>\<open>shape()\<close> change no node, and \<^verbatim>\<open>transformedShape()\<close> only clears the flag of the
  feature's node. Hence \<^verbatim>\<open>transformedShape()\<close> right after construction returns the
  transformed initial shape when the node was dirty already, and \<^verbatim>\<open>T()\<close> otherwise; and
  it runs the transform computation on the feature if and only if the node was dirty.
\<close>

theorem C9_constructor_leaves_node:
  "dirty (objectHeap (Shape_ctor (ShapeHelper_generic transformed) dflt this obj init grp st) n)
     = dirty (objectHeap st n)
   \<and> dirty (nodeOf this (snd (setShape (ShapeHelper_generic transformed) this s st)))
   \<and> objectHeap (clean (ShapeHelper_generic transformed) p M st) = objectHeap st
   \<and> snd (Shape_shape p st) = st
   \<and> dirty (objectHeap (snd (transformedShape (ShapeHelper_generic transformed) p st)) n)
       = (dirty (objectHeap st n) \<and> n \<noteq> object (shapeHeap st p))
   \<and> fst (transformedShape (ShapeHelper_generic transformed) this
          (Shape_ctor (ShapeHelper_generic transformed) dflt this obj init grp st))
       = (if dirty (objectHeap st obj)
          then transformed (case init of None \<Rightarrow> dflt | Some s0 \<Rightarrow> s0) (absoluteTransformation (objectHeap st obj))
          else dflt)
   \<and> (transformCalls (snd (transformedShape (ShapeHelper_generic transformed) this
          (Shape_ctor (ShapeHelper_generic transformed) dflt this obj init grp st))) this
        = transformCalls st this) = (\<not> dirty (objectHeap st obj))"
  by (simp add: Shape_ctor_fields nodeOf_setShape Shape_shape_def transformedShape_def Let_def
      setClean_objectHeap setClean_shapeHeap setClean_transformCalls split: option.split)

text \<open>
  Claim C10. \<^verbatim>\<open>setMinimalFrameTime(v)\<close>, for every bit pattern \<open>v\<close>, returns the address of
  the timeline it was called on; \<^verbatim>\<open>minimalFrameTime()\<close> then returns \<open>v\<close>; the running flag,
  the previous frame duration and both time points are as before; and so is every other
  timeline in the store.
\<close>

theorem C10_setMinimalFrameTime:
  "fst (setMinimalFrameTime this v h) = this
   \<and> minimalFrameTime this (snd (setMinimalFrameTime this v h)) = v
   \<and> running (snd (setMinimalFrameTime this v h) this) = running (h this)
   \<and> m_previousFrameDuration (snd (setMinimalFrameTime this v h) this) = m_previousFrameDuration (h this)
   \<and> m_startTime (snd (setMinimalFrameTime this v h) this) = m_startTime (h this)
   \<and> m_previousFrameTime (snd (setMinimalFrameTime this v h) this) = m_previousFrameTime (h this)
   \<and> (snd (setMinimalFrameTime this v h))(this := h this) = h"
  by (simp add: setMinimalFrameTime_def minimalFrameTime_def)

end
